theory Spec2Isabelle
  imports Complex_Main "HOL-Library.Word" "HOL-Library.AList"
begin

section \<open>Values of a table cell\<close>

text \<open>
  The program works on a pandas table read from a CSV file. A cell of such a table is
  a string, a 64-bit integer or a 64-bit float. The float carries the missing marker
  (NaN) and the two infinities that a division by zero produces. The finite floats are
  idealised as exact rationals: rounding is outside this embedding. The common type
  that pandas gives to all cells of one column is not modelled; each cell carries its
  own tag, so every column of strings, of 64-bit integers or of floats is a column of
  the model. The library's other column types (truth values, unsigned integers, dates)
  are left out.
\<close>

datatype f64 = Fin rat | PInf | NInf | FNaN

datatype cell = Str string | I64 "64 word" | F64 f64

datatype error = FileNotFoundError | KeyError string | TypeError | LibraryError string

abbreviation NaN :: cell where
  "NaN \<equiv> F64 FNaN"

definition isna :: "cell \<Rightarrow> bool" where
  "isna c = (c = NaN)"

definition bind_r :: "error + 'a \<Rightarrow> ('a \<Rightarrow> error + 'b) \<Rightarrow> error + 'b" where
  "bind_r r f = (case r of Inl e \<Rightarrow> Inl e | Inr v \<Rightarrow> f v)"

fun map_r :: "('a \<Rightarrow> error + 'b) \<Rightarrow> 'a list \<Rightarrow> error + 'b list" where
  "map_r f [] = Inr []"
| "map_r f (x # xs) =
     (case f x of Inl e \<Rightarrow> Inl e
      | Inr y \<Rightarrow> (case map_r f xs of Inl e \<Rightarrow> Inl e | Inr ys \<Rightarrow> Inr (y # ys)))"

subsection \<open>Float arithmetic\<close>

fun f64_add :: "f64 \<Rightarrow> f64 \<Rightarrow> f64" where
  "f64_add FNaN _ = FNaN"
| "f64_add _ FNaN = FNaN"
| "f64_add (Fin x) (Fin y) = Fin (x + y)"
| "f64_add PInf NInf = FNaN"
| "f64_add NInf PInf = FNaN"
| "f64_add PInf _ = PInf"
| "f64_add _ PInf = PInf"
| "f64_add NInf _ = NInf"
| "f64_add _ NInf = NInf"

definition f64_signed_inf :: "bool \<Rightarrow> f64" where
  "f64_signed_inf positive = (if positive then PInf else NInf)"

text \<open>
  Division of floats raises nothing: a zero divisor gives an infinity with the sign of
  the dividend, or NaN when the dividend is zero too.
\<close>

fun f64_div :: "f64 \<Rightarrow> f64 \<Rightarrow> f64" where
  "f64_div FNaN _ = FNaN"
| "f64_div _ FNaN = FNaN"
| "f64_div (Fin x) (Fin y) =
     (if y = 0 then (if x = 0 then FNaN else f64_signed_inf (0 < x)) else Fin (x / y))"
| "f64_div (Fin x) PInf = Fin 0"
| "f64_div (Fin x) NInf = Fin 0"
| "f64_div PInf (Fin y) = f64_signed_inf (0 \<le> y)"
| "f64_div NInf (Fin y) = f64_signed_inf (y < 0)"
| "f64_div _ _ = FNaN"

fun f64_less :: "f64 \<Rightarrow> f64 \<Rightarrow> bool" where
  "f64_less FNaN _ = False"
| "f64_less _ FNaN = False"
| "f64_less (Fin x) (Fin y) = (x < y)"
| "f64_less NInf NInf = False"
| "f64_less NInf _ = True"
| "f64_less _ NInf = False"
| "f64_less PInf _ = False"
| "f64_less _ PInf = True"

fun is_finite :: "f64 \<Rightarrow> bool" where
  "is_finite (Fin x) = True"
| "is_finite _ = False"

text \<open>The float a numeric cell stands for; a string has none.\<close>

fun to_float :: "cell \<Rightarrow> error + f64" where
  "to_float (Str s) = Inl TypeError"
| "to_float (I64 w) = Inr (Fin (of_int (sint w)))"
| "to_float (F64 f) = Inr f"


section \<open>Tables\<close>

text \<open>
  A table has a row index of a fixed length and named columns, kept in the order of
  their creation. Reading a column that is absent raises KeyError. Assigning a column
  replaces the one of that name where it stands, or appends a new one.
\<close>

record dataframe =
  index_len :: nat
  cols :: "(string \<times> cell list) list"

definition wf_df :: "dataframe \<Rightarrow> bool" where
  "wf_df df = (distinct (map fst (cols df)) \<and>
     list_all (\<lambda>kv. length (snd kv) = index_len df) (cols df))"

definition get_col :: "dataframe \<Rightarrow> string \<Rightarrow> error + cell list" where
  "get_col df name =
     (case map_of (cols df) name of None \<Rightarrow> Inl (KeyError name) | Some c \<Rightarrow> Inr c)"

definition set_col :: "dataframe \<Rightarrow> string \<Rightarrow> cell list \<Rightarrow> dataframe" where
  "set_col df name c = df\<lparr>cols := AList.update name c (cols df)\<rparr>"

text \<open>\<^verbatim>\<open>df[name] = k\<close> for a scalar: the value at every row of the index.\<close>

definition set_scalar :: "dataframe \<Rightarrow> string \<Rightarrow> cell \<Rightarrow> dataframe" where
  "set_scalar df name v = set_col df name (replicate (index_len df) v)"

text \<open>The cell of a named column at a row, when both exist.\<close>

definition cell_at :: "dataframe \<Rightarrow> string \<Rightarrow> nat \<Rightarrow> cell option" where
  "cell_at df name i =
     (case map_of (cols df) name of None \<Rightarrow> None
      | Some c \<Rightarrow> if i < length c then Some (c ! i) else None)"

subsection \<open>Operations on columns\<close>

text \<open>\<^verbatim>\<open>series == 'text'\<close>: true at the string cells that hold this text, never an error.\<close>

definition eq_str :: "cell list \<Rightarrow> string \<Rightarrow> bool list" where
  "eq_str c s = map (\<lambda>x. x = Str s) c"

text \<open>
  \<^verbatim>\<open>series < k\<close> for an integer: a string cell raises TypeError, NaN compares false.
\<close>

fun cell_lt_int :: "int \<Rightarrow> cell \<Rightarrow> error + bool" where
  "cell_lt_int k (Str s) = Inl TypeError"
| "cell_lt_int k (I64 w) = Inr (sint w < k)"
| "cell_lt_int k (F64 f) = Inr (f64_less f (Fin (of_int k)))"

definition lt_int :: "cell list \<Rightarrow> int \<Rightarrow> error + bool list" where
  "lt_int c k = map_r (cell_lt_int k) c"

text \<open>
  \<^verbatim>\<open>series + k\<close> for an integer: 64-bit integers wrap around, a string cell raises.
\<close>

fun cell_add_int :: "int \<Rightarrow> cell \<Rightarrow> error + cell" where
  "cell_add_int k (Str s) = Inl TypeError"
| "cell_add_int k (I64 w) = Inr (I64 (w + of_int k))"
| "cell_add_int k (F64 f) = Inr (F64 (f64_add f (Fin (of_int k))))"

definition add_int :: "cell list \<Rightarrow> int \<Rightarrow> error + cell list" where
  "add_int c k = map_r (cell_add_int k) c"

text \<open>\<^verbatim>\<open>a / b\<close>: true division, always a float.\<close>

definition cell_div :: "cell \<times> cell \<Rightarrow> error + cell" where
  "cell_div ab =
     bind_r (to_float (fst ab)) (\<lambda>x.
     bind_r (to_float (snd ab)) (\<lambda>y. Inr (F64 (f64_div x y))))"

definition div_cols :: "cell list \<Rightarrow> cell list \<Rightarrow> error + cell list" where
  "div_cols a b = map_r cell_div (zip a b)"

text \<open>
  \<^verbatim>\<open>df.loc[mask, name] += k\<close>: the column is read, the rows selected by the mask are
  increased, and the column is written back.
\<close>

definition loc_add :: "dataframe \<Rightarrow> bool list \<Rightarrow> string \<Rightarrow> int \<Rightarrow> error + dataframe" where
  "loc_add df rows name k =
     bind_r (get_col df name) (\<lambda>c.
     bind_r (map_r (\<lambda>mc. if fst mc then cell_add_int k (snd mc) else Inr (snd mc)) (zip rows c))
       (\<lambda>c'. Inr (set_col df name c')))"

text \<open>An integer column with the selected rows increased by \<open>k\<close>.\<close>

definition add_where :: "bool list \<Rightarrow> int \<Rightarrow> 64 word list \<Rightarrow> 64 word list" where
  "add_where rows k ws = map (\<lambda>mw. if fst mw then snd mw + of_int k else snd mw) (zip rows ws)"

text \<open>
  \<^verbatim>\<open>pd.to_numeric(series, errors='coerce')\<close>: a string becomes the number it
  denotes, or NaN when it denotes none; numbers stay. The parser of numerals belongs to
  the library and is a parameter here.
\<close>

type_synonym parser = "string \<Rightarrow> f64 option"

fun coerce_cell :: "parser \<Rightarrow> cell \<Rightarrow> cell" where
  "coerce_cell parse (Str s) = F64 (case parse s of None \<Rightarrow> FNaN | Some f \<Rightarrow> f)"
| "coerce_cell parse (I64 w) = I64 w"
| "coerce_cell parse (F64 f) = F64 f"

definition to_numeric :: "parser \<Rightarrow> cell list \<Rightarrow> cell list" where
  "to_numeric parse c = map (coerce_cell parse) c"

text \<open>The floats of a column that are not NaN; a string in the column raises.\<close>

definition present_values :: "cell list \<Rightarrow> error + f64 list" where
  "present_values c = bind_r (map_r to_float c) (\<lambda>fs. Inr (filter (\<lambda>f. f \<noteq> FNaN) fs))"

fun insort_f64 :: "f64 \<Rightarrow> f64 list \<Rightarrow> f64 list" where
  "insort_f64 x [] = [x]"
| "insort_f64 x (y # ys) = (if f64_less y x then y # insort_f64 x ys else x # y # ys)"

definition sort_f64 :: "f64 list \<Rightarrow> f64 list" where
  "sort_f64 xs = foldr insort_f64 xs []"

text \<open>
  \<^verbatim>\<open>series.median()\<close>: NaN is skipped; the middle value of the sorted rest, or the
  mean of the two middle values; NaN when nothing is left.
\<close>

definition median_of :: "f64 list \<Rightarrow> f64" where
  "median_of vs =
     (let sorted = sort_f64 vs; n = length sorted in
      if n = 0 then FNaN
      else if odd n then sorted ! (n div 2)
      else f64_div (f64_add (sorted ! (n div 2 - 1)) (sorted ! (n div 2))) (Fin 2))"

definition median :: "cell list \<Rightarrow> error + cell" where
  "median c = bind_r (present_values c) (\<lambda>vs. Inr (F64 (median_of vs)))"

text \<open>\<^verbatim>\<open>series.mean()\<close>: NaN is skipped; NaN when nothing is left.\<close>

definition mean :: "cell list \<Rightarrow> error + f64" where
  "mean c = bind_r (present_values c) (\<lambda>vs.
     Inr (if vs = [] then FNaN
          else f64_div (foldl f64_add (Fin 0) vs) (Fin (of_nat (length vs)))))"

fun f64_times :: "f64 \<Rightarrow> rat \<Rightarrow> f64" where
  "f64_times (Fin x) k = Fin (x * k)"
| "f64_times PInf k = (if k = 0 then FNaN else f64_signed_inf (0 < k))"
| "f64_times NInf k = (if k = 0 then FNaN else f64_signed_inf (k < 0))"
| "f64_times FNaN k = FNaN"

text \<open>\<^verbatim>\<open>series.fillna(v)\<close>: every NaN becomes \<open>v\<close>.\<close>

definition fillna :: "cell list \<Rightarrow> cell \<Rightarrow> cell list" where
  "fillna c v = map (\<lambda>x. if isna x then v else x) c"

text \<open>\<^verbatim>\<open>series.map(dict)\<close>: a cell that is no key of the dictionary becomes NaN.\<close>

definition map_dict :: "(cell \<times> cell) list \<Rightarrow> cell list \<Rightarrow> cell list" where
  "map_dict d c = map (\<lambda>x. case map_of d x of None \<Rightarrow> NaN | Some v \<Rightarrow> v) c"

text \<open>\<^verbatim>\<open>df[names]\<close>: the named columns, KeyError when one is absent.\<close>

definition get_cols :: "dataframe \<Rightarrow> string list \<Rightarrow> error + cell list list" where
  "get_cols df names = map_r (get_col df) names"

text \<open>\<^verbatim>\<open>frame.sum(axis=1)\<close> on truth values: per row, how many columns hold True.\<close>

definition sum_axis1 :: "nat \<Rightarrow> bool list list \<Rightarrow> cell list" where
  "sum_axis1 n bcols = map (\<lambda>i. I64 (of_nat (length (filter (\<lambda>b. b ! i) bcols)))) [0..<n]"

text \<open>\<^verbatim>\<open>series >= k\<close> for an integer: a string cell raises, NaN compares false.\<close>

fun cell_ge_int :: "int \<Rightarrow> cell \<Rightarrow> error + bool" where
  "cell_ge_int k (Str s) = Inl TypeError"
| "cell_ge_int k (I64 w) = Inr (k \<le> sint w)"
| "cell_ge_int k (F64 f) = Inr (f = Fin (of_int k) \<or> f64_less (Fin (of_int k)) f)"

definition ge_int :: "cell list \<Rightarrow> int \<Rightarrow> error + bool list" where
  "ge_int c k = map_r (cell_ge_int k) c"

section \<open>Data processing\<close>

text \<open>
  The file system gives, for a path, the table that \<^verbatim>\<open>pd.read_csv\<close> parses from the
  file there, and nothing where no file is.
\<close>

type_synonym filesystem = "string \<Rightarrow> dataframe option"

definition read_csv :: "filesystem \<Rightarrow> string \<Rightarrow> error + dataframe" where
  "read_csv fs filepath =
     (case fs filepath of None \<Rightarrow> Inl FileNotFoundError | Some df \<Rightarrow> Inr df)"

text \<open>Step 1 of \<^verbatim>\<open>process_data\<close>: the strict numeric conversion of TotalCharges.\<close>

definition clean_total_charges :: "parser \<Rightarrow> dataframe \<Rightarrow> error + dataframe" where
  "clean_total_charges parse df =
     bind_r (get_col df ''TotalCharges'') (\<lambda>raw.
     let df1 = set_col df ''TotalCharges'' (to_numeric parse raw) in
     bind_r (get_col df1 ''TotalCharges'') (\<lambda>total.
     bind_r (get_col df1 ''TotalCharges'') (\<lambda>total'.
     bind_r (median total') (\<lambda>m.
     Inr (set_col df1 ''TotalCharges'' (fillna total m))))))"

definition churn_codes :: "(cell \<times> cell) list" where
  "churn_codes = [(Str ''Yes'', I64 1), (Str ''No'', I64 0)]"

definition services :: "string list" where
  "services = [''OnlineSecurity'', ''OnlineBackup'', ''DeviceProtection'', ''TechSupport'',
     ''StreamingTV'', ''StreamingMovies'']"

definition is_long_term :: "cell \<Rightarrow> cell" where
  "is_long_term x = (if x \<in> set [Str ''One year'', Str ''Two year''] then I64 1 else I64 0)"

text \<open>Step 2 of \<^verbatim>\<open>process_data\<close>: the feature engineering.\<close>

definition engineer_features :: "dataframe \<Rightarrow> error + dataframe" where
  "engineer_features df =
     bind_r (get_col df ''Churn'') (\<lambda>churn.
     let df1 = set_col df ''Churn_Numeric'' (map_dict churn_codes churn) in
     bind_r (get_cols df1 services) (\<lambda>flags.
     let df2 = set_col df1 ''Service_Count''
                 (sum_axis1 (index_len df1) (map (\<lambda>c. eq_str c ''Yes'') flags)) in
     bind_r (get_col df2 ''MonthlyCharges'') (\<lambda>monthly.
     bind_r (get_col df2 ''tenure'') (\<lambda>tenure.
     bind_r (add_int tenure 1) (\<lambda>months.
     bind_r (div_cols monthly months) (\<lambda>velocity.
     let df3 = set_col df2 ''Charge_Velocity'' velocity in
     bind_r (get_col df3 ''Contract'') (\<lambda>contract.
     Inr (set_col df3 ''Is_Long_Term'' (map is_long_term contract)))))))))"

definition process_data :: "parser \<Rightarrow> filesystem \<Rightarrow> string \<Rightarrow> error + dataframe" where
  "process_data parse fs filepath =
     bind_r (read_csv fs filepath) (\<lambda>df.
     bind_r (clean_total_charges parse df) (\<lambda>df'.
     engineer_features df'))"

section \<open>Analytics and scoring\<close>

text \<open>
  \<^verbatim>\<open>calculate_risk_scores(df)\<close>. The table is changed in place and returned; here
  the changed table is the result.
\<close>

definition calculate_risk_scores :: "dataframe \<Rightarrow> error + dataframe" where
  "calculate_risk_scores df =
     (let df0 = set_scalar df ''Risk_Score'' (I64 0) in
      bind_r (get_col df0 ''Contract'') (\<lambda>contract.
      bind_r (loc_add df0 (eq_str contract ''Month-to-month'') ''Risk_Score'' 40) (\<lambda>df1.
      bind_r (get_col df1 ''InternetService'') (\<lambda>internet.
      bind_r (loc_add df1 (eq_str internet ''Fiber optic'') ''Risk_Score'' 20) (\<lambda>df2.
      bind_r (get_col df2 ''TechSupport'') (\<lambda>tech.
      bind_r (loc_add df2 (eq_str tech ''No'') ''Risk_Score'' 20) (\<lambda>df3.
      bind_r (get_col df3 ''tenure'') (\<lambda>tenure.
      bind_r (lt_int tenure 12) (\<lambda>young.
      bind_r (loc_add df3 young ''Risk_Score'' 20) (\<lambda>df4.
      Inr df4))))))))))"

section \<open>Dashboard, report and main\<close>

text \<open>
  The plotting library is outside the program. Each of its calls either draws or
  raises; which one is a parameter, keyed by the name of the call.
\<close>

type_synonym renderer = "string \<Rightarrow> dataframe \<Rightarrow> error option"

text \<open>
  \<^verbatim>\<open>create_dashboard(df)\<close>: four panels, the scoring, the fifth panel, then the export.
  The result is the list of image files written and either the error raised or the
  table, which the scorer has changed in place.
\<close>

definition create_dashboard :: "renderer \<Rightarrow> dataframe \<Rightarrow> string list \<times> (error + dataframe)" where
  "create_dashboard render df =
     (case render ''barplot'' df of Some e \<Rightarrow> ([], Inl e) | None \<Rightarrow>
      case render ''lineplot'' df of Some e \<Rightarrow> ([], Inl e) | None \<Rightarrow>
      case render ''kdeplot'' df of Some e \<Rightarrow> ([], Inl e) | None \<Rightarrow>
      case render ''heatmap'' df of Some e \<Rightarrow> ([], Inl e) | None \<Rightarrow>
      case calculate_risk_scores df of Inl e \<Rightarrow> ([], Inl e) | Inr df' \<Rightarrow>
      case render ''boxenplot'' df' of Some e \<Rightarrow> ([], Inl e) | None \<Rightarrow>
      case render ''savefig'' df' of Some e \<Rightarrow> ([], Inl e) | None \<Rightarrow>
      case render ''show'' df' of Some e \<Rightarrow> ([''Churn_Dashboard_v2.png''], Inl e) | None \<Rightarrow>
      ([''Churn_Dashboard_v2.png''], Inr df'))"

text \<open>The three aggregates that \<^verbatim>\<open>generate_report\<close> computes before it prints.\<close>

record report =
  churn_rate :: f64
  avg_risk :: f64
  high_risk_base :: nat

definition report_aggregates :: "dataframe \<Rightarrow> error + report" where
  "report_aggregates df =
     bind_r (get_col df ''Churn_Numeric'') (\<lambda>churned.
     bind_r (mean churned) (\<lambda>churn_mean.
     bind_r (get_col df ''Risk_Score'') (\<lambda>risk.
     bind_r (mean risk) (\<lambda>risk_mean.
     bind_r (get_col df ''Risk_Score'') (\<lambda>risk'.
     bind_r (ge_int risk' 60) (\<lambda>high.
     Inr \<lparr>churn_rate = f64_times churn_mean 100, avg_risk = risk_mean,
          high_risk_base = length (filter (\<lambda>b. b) high)\<rparr>))))))"

text \<open>
  A line of console output. The fixed lines of the report are kept by their words;
  their glyphs, quotation marks and padding are presentation.
\<close>

datatype line = Bar | Rule | Blank | Words string | Churn_Rate f64 | Avg_Risk f64 | High_Risk nat

definition report_lines :: "report \<Rightarrow> line list" where
  "report_lines r = [Blank, Bar,
     Words ''EXECUTIVE RETENTION REPORT (2026)'', Bar,
     Churn_Rate (churn_rate r), Avg_Risk (avg_risk r), High_Risk (high_risk_base r),
     Rule,
     Words ''KEY RETENTION DRIVERS:'',
     Words ''1. SERVICE BUNDLING: Customers with 4+ services have <5% churn.'',
     Words ''2. CONTRACT TYPE: Month-to-month contracts are 4.5x more likely to churn.'',
     Words ''3. UPSELL OPPORTUNITY: Online Security is the strongest retention signal.'',
     Rule,
     Words ''ACTIONABLE STRATEGY:'',
     Words ''- TARGET: Automate Security Service trials for Fiber Optic users.'',
     Words ''- OFFER: 3-month discount for switching from Monthly to 1-Year contracts.'',
     Bar, Blank]"

definition generate_report :: "dataframe \<Rightarrow> error + line list" where
  "generate_report df = bind_r (report_aggregates df) (\<lambda>r. Inr (report_lines r))"

definition missing_file_message :: line where
  "missing_file_message =
     Words ''ERROR: Please ensure telco_churn.csv is in your project folder.''"

text \<open>
  The body of the \<^verbatim>\<open>try\<close> block of the main program: what it printed, the image
  files it wrote, and the error that ended it, if one did.
\<close>

definition pipeline :: "parser \<Rightarrow> renderer \<Rightarrow> filesystem \<Rightarrow> line list \<times> string list \<times> error option" where
  "pipeline parse render fs =
     (case process_data parse fs ''telco_churn.csv'' of
        Inl e \<Rightarrow> ([], [], Some e)
      | Inr data \<Rightarrow>
          (case create_dashboard render data of
             (files, Inl e) \<Rightarrow> ([], files, Some e)
           | (files, Inr data') \<Rightarrow>
               (case generate_report data' of
                  Inl e \<Rightarrow> ([], files, Some e)
                | Inr printed \<Rightarrow> (printed, files, None))))"

datatype outcome = Exit_Normally | Unhandled error

record run =
  console :: "line list"
  image_files :: "string list"
  outcome :: outcome

text \<open>The main program: the pipeline under its one handler.\<close>

definition main :: "parser \<Rightarrow> renderer \<Rightarrow> filesystem \<Rightarrow> run" where
  "main parse render fs =
     (case pipeline parse render fs of
        (printed, files, None) \<Rightarrow>
          \<lparr>console = printed, image_files = files, outcome = Exit_Normally\<rparr>
      | (printed, files, Some e) \<Rightarrow>
          if e = FileNotFoundError
          then \<lparr>console = printed @ [missing_file_message], image_files = files,
                 outcome = Exit_Normally\<rparr>
          else \<lparr>console = printed, image_files = files, outcome = Unhandled e\<rparr>)"

section \<open>The specification's reading\<close>



text \<open>
  The numbers of a column (its cells that are neither missing nor text nor infinite),
  and the arithmetic mean of a list of numbers, undefined (NaN) for the empty list.
\<close>

fun cell_number :: "cell \<Rightarrow> rat option" where
  "cell_number (I64 w) = Some (of_int (sint w))"
| "cell_number (F64 (Fin x)) = Some x"
| "cell_number _ = None"

definition numbers_in :: "dataframe \<Rightarrow> string \<Rightarrow> rat list" where
  "numbers_in df name =
     (case map_of (cols df) name of None \<Rightarrow> [] | Some c \<Rightarrow> List.map_filter cell_number c)"

definition spec_mean :: "rat list \<Rightarrow> f64" where
  "spec_mean xs = (if xs = [] then FNaN else Fin (sum_list xs / of_nat (length xs)))"

text \<open>The columns that the feature engineering assigns.\<close>

definition derived_columns :: "string list" where
  "derived_columns = [''Churn_Numeric'', ''Service_Count'', ''Charge_Velocity'', ''Is_Long_Term'']"

text \<open>A cell of the table that the feature engineering returns, when it returns one.\<close>

definition engineered_cell :: "dataframe \<Rightarrow> string \<Rightarrow> nat \<Rightarrow> cell option" where
  "engineered_cell df name i =
     (case engineer_features df of Inl e \<Rightarrow> None | Inr df' \<Rightarrow> cell_at df' name i)"

section \<open>Small tables\<close>

text \<open>
  Three customers, as the CSV reader delivers them: text columns as strings, tenure
  as 64-bit integers, the charges as floats, and the blank total charge of the second
  customer as NaN.
\<close>

definition three_customers :: dataframe where
  "three_customers = \<lparr>index_len = 3, cols = [
     (''tenure'', [I64 3, I64 48, I64 0]),
     (''InternetService'', [Str ''Fiber optic'', Str ''DSL'', Str ''DSL'']),
     (''OnlineSecurity'', [Str ''Yes'', Str ''Yes'', Str ''Yes'']),
     (''OnlineBackup'', [Str ''Yes'', Str ''No'', Str ''Yes'']),
     (''DeviceProtection'', [Str ''No'', Str ''Yes'', Str ''No'']),
     (''TechSupport'', [Str ''No'', Str ''Yes'', Str ''No internet service'']),
     (''StreamingTV'', [Str ''Yes'', Str ''No'', Str ''Yes'']),
     (''StreamingMovies'', [Str ''No'', Str ''No'', Str ''No'']),
     (''Contract'', [Str ''Month-to-month'', Str ''Two year'', Str ''One year'']),
     (''MonthlyCharges'', [F64 (Fin (597 / 20)), F64 (Fin (1139 / 20)), F64 (Fin (423 / 10))]),
     (''TotalCharges'', [F64 (Fin (597 / 20)), NaN, F64 (Fin (7363 / 4))]),
     (''Churn'', [Str ''Yes'', Str ''No'', Str ''No''])]\<rparr>"

text \<open>The same customers after the cleaning: the blank holds the median 935.30.\<close>

definition three_customers_cleaned :: dataframe where
  "three_customers_cleaned = set_col three_customers ''TotalCharges''
     [F64 (Fin (597 / 20)), F64 (Fin (9353 / 10)), F64 (Fin (7363 / 4))]"

text \<open>The same customers with the four engineered columns.\<close>

definition three_customers_engineered :: dataframe where
  "three_customers_engineered =
     set_col (set_col (set_col (set_col three_customers
       ''Churn_Numeric'' [I64 1, I64 0, I64 0])
       ''Service_Count'' [I64 3, I64 3, I64 3])
       ''Charge_Velocity'' [F64 (Fin (597 / 80)), F64 (Fin (1139 / 980)), F64 (Fin (423 / 10))])
       ''Is_Long_Term'' [I64 0, I64 1, I64 1]"

text \<open>The engineered customers with their scores.\<close>

definition three_customers_scored :: dataframe where
  "three_customers_scored =
     set_col three_customers_engineered ''Risk_Score'' [I64 100, I64 0, I64 20]"


text \<open>The customers in a file that already has a column named Is_Long_Term.\<close>

definition with_own_long_term :: dataframe where
  "with_own_long_term = set_col three_customers ''Is_Long_Term'' [Str ''no'', Str ''yes'', Str ''yes'']"

text \<open>
  A parser for the two numerals used here, with the numbers that the library's parser
  gives them; the blank field denotes no number. Then a TotalCharges column as it is
  read when one field holds a blank, so that all its fields stay strings, and one in
  which no field holds a number.
\<close>

definition parse_known :: parser where
  "parse_known = map_of [(''29.85'', Fin (597 / 20)), (''1840.75'', Fin (7363 / 4))]"

definition blank_total :: dataframe where
  "blank_total = set_col three_customers ''TotalCharges'' [Str ''29.85'', Str '' '', Str ''1840.75'']"

definition no_total :: dataframe where
  "no_total = set_col three_customers ''TotalCharges'' [Str '' '', Str '' '', Str '' '']"

text \<open>
  A plotting library that draws every panel, and three file systems: an empty one, one
  with the three customers, and one whose file has a single column of identifiers.
\<close>

definition draws_all :: renderer where
  "draws_all call df = None"


definition customers_file :: filesystem where
  "customers_file = [''telco_churn.csv'' \<mapsto> three_customers]"


section \<open>Basic facts\<close>

subsection \<open>Results and errors\<close>

lemma bind_r_Inl [simp]: "bind_r (Inl e) f = Inl e"
  by (simp add: bind_r_def)

lemma bind_r_Inr [simp]: "bind_r (Inr v) f = f v"
  by (simp add: bind_r_def)

lemma bind_r_eq_Inr: "bind_r r f = Inr y \<longleftrightarrow> (\<exists>v. r = Inr v \<and> f v = Inr y)"
  by (cases r) simp_all



lemma map_r_total: "(\<And>x. x \<in> set xs \<Longrightarrow> \<exists>y. f x = Inr y) \<Longrightarrow> \<exists>ys. map_r f xs = Inr ys"
proof (induction xs)
  case Nil
  then show ?case by simp
next
  case (Cons x xs)
  then obtain y where "f x = Inr y" by force
  moreover from Cons obtain ys where "map_r f xs = Inr ys" by force
  ultimately show ?case by simp
qed

lemma map_r_Inr_map: "(\<And>x. x \<in> set xs \<Longrightarrow> f x = Inr (g x)) \<Longrightarrow> map_r f xs = Inr (map g xs)"
  by (induction xs) simp_all

lemma map_r_cong: "(\<And>x. x \<in> set xs \<Longrightarrow> f x = g x) \<Longrightarrow> map_r f xs = map_r g xs"
  by (induction xs) (auto split: sum.splits)


subsection \<open>Columns of a table\<close>

lemma get_col_set_col:
  "get_col (set_col df k v) k' = (if k' = k then Inr v else get_col df k')"
  by (simp add: get_col_def set_col_def update_conv')

lemma index_len_set_col [simp]: "index_len (set_col df k v) = index_len df"
  by (simp add: set_col_def)

lemma set_col_set_col [simp]: "set_col (set_col df k a) k b = set_col df k b"
  by (simp add: set_col_def)

lemma update_same: "map_of al k = Some v \<Longrightarrow> AList.update k v al = al"
  by (induction al) (auto split: if_splits)

lemma set_col_same: "get_col df k = Inr v \<Longrightarrow> set_col df k v = df"
  by (auto simp: get_col_def set_col_def update_same split: option.splits)

lemma col_names_set_col:
  "set (map fst (cols (set_col df k v))) = insert k (set (map fst (cols df)))"
  by (simp add: set_col_def dom_update)


lemma set_update_subset: "set (AList.update k v al) \<subseteq> insert (k, v) (set al)"
  by (induction al) auto

lemma wf_set_col: "wf_df df \<Longrightarrow> length c = index_len df \<Longrightarrow> wf_df (set_col df k c)"
proof -
  assume wf: "wf_df df" and len: "length c = index_len df"
  have "set (AList.update k c (cols df)) \<subseteq> insert (k, c) (set (cols df))"
    by (rule set_update_subset)
  with wf len show ?thesis
    by (auto simp: wf_df_def set_col_def list_all_iff distinct_update)
qed


lemma cell_at_set_col:
  "cell_at (set_col df k v) k' i =
     (if k' = k then (if i < length v then Some (v ! i) else None) else cell_at df k' i)"
  by (simp add: cell_at_def set_col_def update_conv')

lemma get_cols_set_col: "k \<notin> set names \<Longrightarrow> get_cols (set_col df k v) names = get_cols df names"
  unfolding get_cols_def by (rule map_r_cong) (auto simp: get_col_set_col)

subsection \<open>Signed 64-bit integers\<close>




section \<open>The cleaning of TotalCharges\<close>

lemma set_insort_f64 [simp]: "set (insort_f64 x ys) = insert x (set ys)"
  by (induction ys) auto

lemma length_insort_f64 [simp]: "length (insort_f64 x ys) = Suc (length ys)"
  by (induction ys) auto

lemma set_sort_f64 [simp]: "set (sort_f64 xs) = set xs"
  unfolding sort_f64_def by (induction xs) auto

lemma length_sort_f64 [simp]: "length (sort_f64 xs) = length xs"
  unfolding sort_f64_def by (induction xs) auto

lemma is_finite_mean2: "is_finite a \<Longrightarrow> is_finite b \<Longrightarrow> is_finite (f64_div (f64_add a b) (Fin 2))"
  by (cases a; cases b) simp_all

lemma median_of_finite:
  assumes "vs \<noteq> []" and "\<forall>v \<in> set vs. is_finite v"
  shows "is_finite (median_of vs)"
proof -
  let ?s = "sort_f64 vs"
  have n: "0 < length ?s" using assms(1) by simp
  have fin: "is_finite (?s ! j)" if "j < length ?s" for j
    using assms(2) that nth_mem [of j ?s] by simp
  show ?thesis
  proof (cases "odd (length ?s)")
    case True
    then show ?thesis using n fin [of "length ?s div 2"]
      by (simp add: median_of_def Let_def del: length_sort_f64 set_sort_f64)
  next
    case False
    have "is_finite (?s ! (length ?s div 2 - 1))" and "is_finite (?s ! (length ?s div 2))"
    proof -
      from n have lo: "length ?s div 2 - 1 < length ?s" and hi: "length ?s div 2 < length ?s"
        by arith+
      from lo show "is_finite (?s ! (length ?s div 2 - 1))" by (rule fin)
      from hi show "is_finite (?s ! (length ?s div 2))" by (rule fin)
    qed
    then have "is_finite (f64_div (f64_add (?s ! (length ?s div 2 - 1)) (?s ! (length ?s div 2)))
        (Fin 2))"
      by (rule is_finite_mean2)
    then show ?thesis
      using False n by (simp add: median_of_def Let_def del: length_sort_f64 set_sort_f64)
  qed
qed

lemma is_finite_not_nan: "is_finite f \<Longrightarrow> f \<noteq> FNaN"
  by (cases f) simp_all

lemma to_float_coerce_cell: "\<exists>f. to_float (coerce_cell parse c) = Inr f"
  by (cases c) simp_all

lemma present_values_to_numeric: "\<exists>vs. present_values (to_numeric parse raw) = Inr vs"
proof -
  have "\<exists>fs. map_r to_float (to_numeric parse raw) = Inr fs"
    by (rule map_r_total) (auto simp: to_numeric_def to_float_coerce_cell)
  then show ?thesis by (auto simp: present_values_def)
qed

lemma clean_total_charges_Inr:
  assumes "get_col df ''TotalCharges'' = Inr raw"
  shows "\<exists>vs. present_values (to_numeric parse raw) = Inr vs \<and>
     clean_total_charges parse df =
       Inr (set_col df ''TotalCharges'' (fillna (to_numeric parse raw) (F64 (median_of vs))))"
proof -
  from present_values_to_numeric obtain vs where "present_values (to_numeric parse raw) = Inr vs"
    by blast
  then show ?thesis
    using assms by (simp add: clean_total_charges_def Let_def get_col_set_col median_def)
qed

text \<open>
  Claim C2, as the code has it. After the cleaning step, every cell of TotalCharges
  that denotes no number holds the median of the cells that denote one, and every
  other cell holds its number unchanged. No cell is missing afterwards provided that
  median is itself a number, which it is when at least one cell denotes a number and
  all the numbers are finite.
\<close>

theorem total_charges_cleaned:
  assumes "clean_total_charges parse df = Inr df'" and "get_col df ''TotalCharges'' = Inr raw"
    and "i < length raw"
  shows "\<exists>vs. present_values (to_numeric parse raw) = Inr vs \<and>
     cell_at df' ''TotalCharges'' i =
       Some (if isna (coerce_cell parse (raw ! i)) then F64 (median_of vs)
             else coerce_cell parse (raw ! i)) \<and>
     (median_of vs \<noteq> FNaN \<longrightarrow> cell_at df' ''TotalCharges'' i \<noteq> Some NaN) \<and>
     (vs \<noteq> [] \<and> (\<forall>v \<in> set vs. is_finite v) \<longrightarrow> median_of vs \<noteq> FNaN) \<and>
     (raw ! i \<noteq> NaN \<and> (\<forall>s. raw ! i \<noteq> Str s) \<longrightarrow> cell_at df' ''TotalCharges'' i = Some (raw ! i))"
proof -
  from clean_total_charges_Inr [OF assms(2)] assms(1) obtain vs where
    vs: "present_values (to_numeric parse raw) = Inr vs" and
    df': "df' = set_col df ''TotalCharges'' (fillna (to_numeric parse raw) (F64 (median_of vs)))"
    by force
  have cell: "cell_at df' ''TotalCharges'' i =
       Some (if isna (coerce_cell parse (raw ! i)) then F64 (median_of vs)
             else coerce_cell parse (raw ! i))"
    unfolding df' using assms(3) by (simp add: cell_at_set_col fillna_def to_numeric_def)
  have "cell_at df' ''TotalCharges'' i \<noteq> Some NaN" if "median_of vs \<noteq> FNaN"
    using that cell by (auto simp: isna_def)
  moreover have "median_of vs \<noteq> FNaN" if "vs \<noteq> [] \<and> (\<forall>v \<in> set vs. is_finite v)"
  proof -
    from that have "is_finite (median_of vs)"
      by (simp add: median_of_finite)
    then show ?thesis by (rule is_finite_not_nan)
  qed
  moreover have "cell_at df' ''TotalCharges'' i = Some (raw ! i)"
    if "raw ! i \<noteq> NaN \<and> (\<forall>s. raw ! i \<noteq> Str s)"
    using that cell by (cases "raw ! i") (auto simp: isna_def)
  ultimately show ?thesis using vs cell by blast
qed

lemma clean_blank_total:
  "clean_total_charges parse_known blank_total = Inr three_customers_cleaned"
  by code_simp

lemma clean_three_customers:
  "clean_total_charges parse_known three_customers = Inr three_customers_cleaned"
  by code_simp

theorem total_charges_cleaned_witness:
  "clean_total_charges parse_known blank_total = Inr three_customers_cleaned \<and>
   get_col blank_total ''TotalCharges'' = Inr [Str ''29.85'', Str '' '', Str ''1840.75''] \<and>
   1 < length [Str ''29.85'', Str '' '', Str ''1840.75''] \<and>
   present_values (to_numeric parse_known [Str ''29.85'', Str '' '', Str ''1840.75'']) =
     Inr [Fin (597 / 20), Fin (7363 / 4)] \<and>
   median_of [Fin (597 / 20), Fin (7363 / 4)] = Fin (9353 / 10) \<and>
   cell_at three_customers_cleaned ''TotalCharges'' 1 = Some (F64 (Fin (9353 / 10))) \<and>
   clean_total_charges parse_known three_customers = Inr three_customers_cleaned \<and>
   get_col three_customers ''TotalCharges'' = Inr [F64 (Fin (597 / 20)), NaN, F64 (Fin (7363 / 4))] \<and>
   cell_at three_customers_cleaned ''TotalCharges'' 0 = Some (F64 (Fin (597 / 20)))"
proof -
  have raw: "get_col blank_total ''TotalCharges'' = Inr [Str ''29.85'', Str '' '', Str ''1840.75'']"
    by code_simp
  have i: "1 < length [Str ''29.85'', Str '' '', Str ''1840.75'']"
    by simp
  have vs: "present_values (to_numeric parse_known [Str ''29.85'', Str '' '', Str ''1840.75'']) =
     Inr [Fin (597 / 20), Fin (7363 / 4)]"
    by code_simp
  have m: "median_of [Fin (597 / 20), Fin (7363 / 4)] = Fin (9353 / 10)"
    by code_simp
  have blank: "isna (coerce_cell parse_known (Str '' ''))"
    by code_simp
  from total_charges_cleaned [OF clean_blank_total raw i] vs m blank
  have filled: "cell_at three_customers_cleaned ''TotalCharges'' 1 = Some (F64 (Fin (9353 / 10)))"
    by auto
  have raw': "get_col three_customers ''TotalCharges'' =
      Inr [F64 (Fin (597 / 20)), NaN, F64 (Fin (7363 / 4))]"
    by code_simp
  have i': "0 < length [F64 (Fin (597 / 20)), NaN, F64 (Fin (7363 / 4))]"
    by simp
  from total_charges_cleaned [OF clean_three_customers raw' i']
  have kept: "cell_at three_customers_cleaned ''TotalCharges'' 0 = Some (F64 (Fin (597 / 20)))"
    by auto
  from raw i vs m filled raw' kept show ?thesis
    by (simp add: clean_blank_total clean_three_customers)
qed

text \<open>
  Claim C2, as stated, fails on a column in which no cell denotes a number: the median
  is NaN, and the cells are still missing after the cleaning.
\<close>

theorem total_charges_all_blank_stay_missing:
  "get_col no_total ''TotalCharges'' = Inr [Str '' '', Str '' '', Str '' ''] \<and>
   clean_total_charges parse_known no_total =
     Inr (set_col three_customers ''TotalCharges'' [NaN, NaN, NaN]) \<and>
   cell_at (set_col three_customers ''TotalCharges'' [NaN, NaN, NaN]) ''TotalCharges'' 0 = Some NaN"
  by code_simp

section \<open>The engineered features\<close>

text \<open>
  What the feature engineering returns, when it returns: the table with the four
  derived columns assigned, each computed from columns of the input.
\<close>

lemma engineer_features_Inr:
  assumes "engineer_features df = Inr df'"
  shows "\<exists>churn flags monthly tenure months velocity contract.
     get_col df ''Churn'' = Inr churn \<and> get_cols df services = Inr flags \<and>
     get_col df ''MonthlyCharges'' = Inr monthly \<and> get_col df ''tenure'' = Inr tenure \<and>
     add_int tenure 1 = Inr months \<and> div_cols monthly months = Inr velocity \<and>
     get_col df ''Contract'' = Inr contract \<and>
     df' = set_col (set_col (set_col (set_col df
             ''Churn_Numeric'' (map_dict churn_codes churn))
             ''Service_Count'' (sum_axis1 (index_len df) (map (\<lambda>c. eq_str c ''Yes'') flags)))
             ''Charge_Velocity'' velocity)
             ''Is_Long_Term'' (map is_long_term contract)"
proof -
  have sv: "\<And>v. get_cols (set_col df ''Churn_Numeric'' v) services = get_cols df services"
    by (rule get_cols_set_col) (simp add: services_def)
  from assms show ?thesis
    unfolding engineer_features_def Let_def bind_r_eq_Inr
    by (auto simp: get_col_set_col sv)
qed

lemma engineer_three_customers:
  "engineer_features three_customers = Inr three_customers_engineered"
  by code_simp










text \<open>
  Claim C7, as the code has it. The feature engineering leaves the row index and every
  column unchanged whose name is not one of the four derived names, and the columns of
  its result are those of its input together with the four derived ones. A column of
  the input that bears a derived name is overwritten.
\<close>

theorem other_columns_preserved:
  assumes "engineer_features df = Inr df'" and "name \<notin> set derived_columns"
  shows "get_col df' name = get_col df name \<and> index_len df' = index_len df \<and>
     set (map fst (cols df')) = set (map fst (cols df)) \<union> set derived_columns"
proof -
  from engineer_features_Inr [OF assms(1)] obtain cn sc cv lt where
    df': "df' = set_col (set_col (set_col (set_col df ''Churn_Numeric'' cn)
             ''Service_Count'' sc) ''Charge_Velocity'' cv) ''Is_Long_Term'' lt"
    by blast
  from assms(2) have "get_col df' name = get_col df name"
    unfolding df' by (simp add: get_col_set_col derived_columns_def)
  moreover have "index_len df' = index_len df"
    unfolding df' by simp
  moreover have "set (map fst (cols df')) = set (map fst (cols df)) \<union> set derived_columns"
    unfolding df' col_names_set_col by (auto simp: derived_columns_def)
  ultimately show ?thesis by simp
qed

theorem other_columns_preserved_witness:
  "engineer_features three_customers = Inr three_customers_engineered \<and>
   ''TotalCharges'' \<notin> set derived_columns \<and>
   get_col three_customers_engineered ''TotalCharges'' = get_col three_customers ''TotalCharges'' \<and>
   get_col three_customers ''TotalCharges'' = Inr [F64 (Fin (597 / 20)), NaN, F64 (Fin (7363 / 4))]"
proof -
  have name: "''TotalCharges'' \<notin> set derived_columns"
    by (simp add: derived_columns_def)
  have col: "get_col three_customers ''TotalCharges'' = Inr [F64 (Fin (597 / 20)), NaN, F64 (Fin (7363 / 4))]"
    by code_simp
  from other_columns_preserved [OF engineer_three_customers name] name col
  show ?thesis
    by (simp add: engineer_three_customers)
qed

text \<open>
  Claim C7, as stated, fails on a table that already has a column with a derived name:
  that original column is replaced.
\<close>

theorem own_long_term_overwritten:
  "cell_at with_own_long_term ''Is_Long_Term'' 0 = Some (Str ''no'') \<and>
   engineered_cell with_own_long_term ''Is_Long_Term'' 0 = Some (I64 0)"
  by code_simp

text \<open>
  Claim C9. The feature engineering is idempotent: applied to a table it has returned,
  it returns that table again, so every derived value is the one of the first run.
\<close>

theorem engineer_features_idempotent:
  assumes "engineer_features df = Inr df'"
  shows "engineer_features df' = Inr df'"
proof -
  from engineer_features_Inr [OF assms] obtain churn flags monthly tenure months velocity contract
    where
    churn: "get_col df ''Churn'' = Inr churn" and flags: "get_cols df services = Inr flags" and
    monthly: "get_col df ''MonthlyCharges'' = Inr monthly" and
    tenure: "get_col df ''tenure'' = Inr tenure" and
    months: "add_int tenure 1 = Inr months" and
    velocity: "div_cols monthly months = Inr velocity" and
    contract: "get_col df ''Contract'' = Inr contract" and
    df': "df' = set_col (set_col (set_col (set_col df
             ''Churn_Numeric'' (map_dict churn_codes churn))
             ''Service_Count'' (sum_axis1 (index_len df) (map (\<lambda>c. eq_str c ''Yes'') flags)))
             ''Charge_Velocity'' velocity)
             ''Is_Long_Term'' (map is_long_term contract)"
    by blast
  have read: "get_col df' ''Churn'' = Inr churn" "get_col df' ''MonthlyCharges'' = Inr monthly"
    "get_col df' ''tenure'' = Inr tenure" "get_col df' ''Contract'' = Inr contract"
    unfolding df' using churn monthly tenure contract by (simp_all add: get_col_set_col)
  have flags': "get_cols df' services = Inr flags"
    unfolding df' using flags by (simp add: get_cols_set_col services_def)
  have len: "index_len df' = index_len df"
    unfolding df' by simp
  have written: "get_col df' ''Churn_Numeric'' = Inr (map_dict churn_codes churn)"
    "get_col df' ''Service_Count'' =
       Inr (sum_axis1 (index_len df) (map (\<lambda>c. eq_str c ''Yes'') flags))"
    "get_col df' ''Charge_Velocity'' = Inr velocity"
    "get_col df' ''Is_Long_Term'' = Inr (map is_long_term contract)"
    unfolding df' by (simp_all add: get_col_set_col)
  show ?thesis
    unfolding engineer_features_def Let_def
    by (simp add: read flags' len written set_col_same months velocity)
qed

theorem engineer_features_idempotent_witness:
  "engineer_features three_customers = Inr three_customers_engineered \<and>
   engineer_features three_customers_engineered = Inr three_customers_engineered"
  using engineer_features_idempotent [OF engineer_three_customers]
  by (simp add: engineer_three_customers)

text \<open>
  The theorems above speak of the tables on which the step returns. It does return
  whenever the columns it reads are present and the two numeric ones hold no text.
\<close>

lemma add_int_total:
  assumes "\<forall>c \<in> set tn. \<forall>s. c \<noteq> Str s"
  shows "\<exists>months. add_int tn k = Inr months \<and> (\<forall>c \<in> set months. \<forall>s. c \<noteq> Str s)"
  using assms unfolding add_int_def
proof (induction tn)
  case Nil
  then show ?case by simp
next
  case (Cons c tn)
  then obtain months where "map_r (cell_add_int k) tn = Inr months"
    and "\<forall>c \<in> set months. \<forall>s. c \<noteq> Str s"
    by auto
  moreover from Cons.prems obtain c' where "cell_add_int k c = Inr c'" and "\<forall>s. c' \<noteq> Str s"
    by (cases c) auto
  ultimately show ?case by simp
qed

lemma div_cols_total:
  assumes "\<forall>c \<in> set a. \<forall>s. c \<noteq> Str s" and "\<forall>c \<in> set b. \<forall>s. c \<noteq> Str s"
  shows "\<exists>q. div_cols a b = Inr q"
  unfolding div_cols_def
proof (rule map_r_total)
  fix ab assume "ab \<in> set (zip a b)"
  then have "(fst ab, snd ab) \<in> set (zip a b)"
    by simp
  then have "fst ab \<in> set a" and "snd ab \<in> set b"
    by (rule set_zip_leftD, rule set_zip_rightD)
  with assms obtain x y where "to_float (fst ab) = Inr x" and "to_float (snd ab) = Inr y"
    by (cases "fst ab"; cases "snd ab") auto
  then show "\<exists>q. cell_div ab = Inr q"
    by (simp add: cell_div_def)
qed

lemma engineer_features_total:
  assumes "get_col df ''Churn'' = Inr churn" and "get_cols df services = Inr flags"
    and "get_col df ''MonthlyCharges'' = Inr monthly" and "get_col df ''tenure'' = Inr tenure"
    and "get_col df ''Contract'' = Inr contract"
    and "\<forall>c \<in> set monthly. \<forall>s. c \<noteq> Str s" and "\<forall>c \<in> set tenure. \<forall>s. c \<noteq> Str s"
  shows "\<exists>df'. engineer_features df = Inr df'"
proof -
  from add_int_total [OF assms(7)] obtain months where
    months: "add_int tenure 1 = Inr months" "\<forall>c \<in> set months. \<forall>s. c \<noteq> Str s"
    by blast
  from div_cols_total [OF assms(6) months(2)] obtain velocity where
    velocity: "div_cols monthly months = Inr velocity"
    by blast
  have "get_cols (set_col df ''Churn_Numeric'' v) services = Inr flags" for v
    using assms(2) by (simp add: get_cols_set_col services_def)
  then show ?thesis
    unfolding engineer_features_def Let_def
    using assms(1,3,4,5) months(1) velocity by (simp add: get_col_set_col)
qed

section \<open>The risk score\<close>

lemma loc_add_I64:
  assumes "get_col df name = Inr (map I64 ws)"
  shows "loc_add df rows name k =
    Inr (set_col df name (map I64 (add_where rows k ws)))"
proof -
  have "map_r (\<lambda>mc. if fst mc then cell_add_int k (snd mc) else Inr (snd mc)) (zip rows (map I64 ws))
     = Inr (map (\<lambda>mc. I64 (if fst mc then snd mc + of_int k else snd mc)) (zip rows ws))"
    by (induction rows arbitrary: ws) (auto simp: zip_Cons1 split: list.splits) 
  then show ?thesis using assms by (simp add: loc_add_def o_def add_where_def)
qed

lemma length_add_where [simp]: "length (add_where rows k ws) = min (length rows) (length ws)"
  by (simp add: add_where_def)


text \<open>
  What the scorer returns, when it returns: the table with Risk_Score assigned, the
  four rules applied one after the other to a column of zeros.
\<close>

lemma calculate_risk_scores_Inr:
  assumes "calculate_risk_scores df = Inr df'"
  shows "\<exists>ct it ts tn young.
     get_col df ''Contract'' = Inr ct \<and> get_col df ''InternetService'' = Inr it \<and>
     get_col df ''TechSupport'' = Inr ts \<and> get_col df ''tenure'' = Inr tn \<and>
     lt_int tn 12 = Inr young \<and>
     df' = set_col df ''Risk_Score'' (map I64
       (add_where young 20 (add_where (eq_str ts ''No'') 20
         (add_where (eq_str it ''Fiber optic'') 20
           (add_where (eq_str ct ''Month-to-month'') 40 (replicate (index_len df) 0))))))"
proof -
  let ?df0 = "set_scalar df ''Risk_Score'' (I64 0)"
  have rs0: "get_col ?df0 ''Risk_Score'' = Inr (map I64 (replicate (index_len df) 0))"
    by (simp add: set_scalar_def get_col_set_col)
  from assms obtain ct df1 it df2 ts df3 tn young where
    ct: "get_col ?df0 ''Contract'' = Inr ct" and
    df1: "loc_add ?df0 (eq_str ct ''Month-to-month'') ''Risk_Score'' 40 = Inr df1" and
    it: "get_col df1 ''InternetService'' = Inr it" and
    df2: "loc_add df1 (eq_str it ''Fiber optic'') ''Risk_Score'' 20 = Inr df2" and
    ts: "get_col df2 ''TechSupport'' = Inr ts" and
    df3: "loc_add df2 (eq_str ts ''No'') ''Risk_Score'' 20 = Inr df3" and
    tn: "get_col df3 ''tenure'' = Inr tn" and
    young: "lt_int tn 12 = Inr young" and
    df4: "loc_add df3 young ''Risk_Score'' 20 = Inr df'"
    unfolding calculate_risk_scores_def Let_def bind_r_eq_Inr by blast
  have e1: "df1 = set_col df ''Risk_Score'' (map I64
      (add_where (eq_str ct ''Month-to-month'') 40 (replicate (index_len df) 0)))"
    using df1 loc_add_I64 [OF rs0] by (simp add: set_scalar_def)
  have e2: "df2 = set_col df ''Risk_Score'' (map I64
      (add_where (eq_str it ''Fiber optic'') 20
        (add_where (eq_str ct ''Month-to-month'') 40 (replicate (index_len df) 0))))"
    using df2 unfolding e1 by (subst (asm) loc_add_I64) (auto simp: get_col_set_col)
  have e3: "df3 = set_col df ''Risk_Score'' (map I64
      (add_where (eq_str ts ''No'') 20 (add_where (eq_str it ''Fiber optic'') 20
        (add_where (eq_str ct ''Month-to-month'') 40 (replicate (index_len df) 0)))))"
    using df3 unfolding e2 by (subst (asm) loc_add_I64) (auto simp: get_col_set_col)
  have e4: "df' = set_col df ''Risk_Score'' (map I64
      (add_where young 20 (add_where (eq_str ts ''No'') 20 (add_where (eq_str it ''Fiber optic'') 20
        (add_where (eq_str ct ''Month-to-month'') 40 (replicate (index_len df) 0))))))"
    using df4 unfolding e3 by (subst (asm) loc_add_I64) (auto simp: get_col_set_col)
  from ct have "get_col df ''Contract'' = Inr ct"
    by (simp add: set_scalar_def get_col_set_col)
  moreover from it have "get_col df ''InternetService'' = Inr it"
    unfolding e1 by (simp add: get_col_set_col)
  moreover from ts have "get_col df ''TechSupport'' = Inr ts"
    unfolding e2 by (simp add: get_col_set_col)
  moreover from tn have "get_col df ''tenure'' = Inr tn"
    unfolding e3 by (simp add: get_col_set_col)
  ultimately show ?thesis using young e4 by blast
qed




lemma calculate_risk_scores_set_old:
  "calculate_risk_scores (set_col df ''Risk_Score'' old) = calculate_risk_scores df"
  by (simp add: calculate_risk_scores_def set_scalar_def)

text \<open>
  Claim C10. The scorer first sets Risk_Score to 0 at every row, so the scores present
  before a call do not enter its result: whatever Risk_Score column the table has, the
  result is the same, and the scorer applied to its own result returns it unchanged.
\<close>

theorem calculate_risk_scores_idempotent:
  assumes "calculate_risk_scores df = Inr df'"
  shows "calculate_risk_scores df' = Inr df' \<and>
     calculate_risk_scores (set_col df ''Risk_Score'' old) = Inr df'"
proof -
  from calculate_risk_scores_Inr [OF assms] obtain scores where
    "df' = set_col df ''Risk_Score'' scores"
    by blast
  then have "calculate_risk_scores df' = Inr df'"
    using assms by (simp add: calculate_risk_scores_set_old)
  moreover have "calculate_risk_scores (set_col df ''Risk_Score'' old) = Inr df'"
    using assms by (simp add: calculate_risk_scores_set_old)
  ultimately show ?thesis by simp
qed

lemma score_three_customers:
  "calculate_risk_scores three_customers =
     Inr (set_col three_customers ''Risk_Score'' [I64 100, I64 0, I64 20])"
  by code_simp

theorem calculate_risk_scores_idempotent_witness:
  "calculate_risk_scores three_customers =
     Inr (set_col three_customers ''Risk_Score'' [I64 100, I64 0, I64 20]) \<and>
   calculate_risk_scores (set_col three_customers ''Risk_Score'' [I64 100, I64 0, I64 20]) =
     Inr (set_col three_customers ''Risk_Score'' [I64 100, I64 0, I64 20])"
  using calculate_risk_scores_idempotent [OF score_three_customers]
  by (simp add: score_three_customers)

text \<open>
  The scorer returns whenever its four columns are present and tenure holds no text.
\<close>

lemma lt_int_total:
  assumes "\<forall>c \<in> set tn. \<forall>s. c \<noteq> Str s"
  shows "\<exists>young. lt_int tn k = Inr young"
  unfolding lt_int_def
proof (rule map_r_total)
  fix c assume "c \<in> set tn"
  with assms show "\<exists>y. cell_lt_int k c = Inr y" by (cases c) auto
qed

lemma calculate_risk_scores_total:
  assumes "get_col df ''Contract'' = Inr ct" and "get_col df ''InternetService'' = Inr it"
    and "get_col df ''TechSupport'' = Inr ts" and "get_col df ''tenure'' = Inr tn"
    and "\<forall>c \<in> set tn. \<forall>s. c \<noteq> Str s"
  shows "\<exists>df'. calculate_risk_scores df = Inr df'"
proof -
  from lt_int_total [OF assms(5)] obtain young where young: "lt_int tn 12 = Inr young"
    by blast
  let ?df0 = "set_scalar df ''Risk_Score'' (I64 0)"
  let ?w1 = "add_where (eq_str ct ''Month-to-month'') 40 (replicate (index_len df) 0)"
  let ?w2 = "add_where (eq_str it ''Fiber optic'') 20 ?w1"
  let ?w3 = "add_where (eq_str ts ''No'') 20 ?w2"
  have rs0: "get_col ?df0 ''Risk_Score'' = Inr (map I64 (replicate (index_len df) 0))"
    by (simp add: set_scalar_def get_col_set_col)
  have s1: "loc_add ?df0 (eq_str ct ''Month-to-month'') ''Risk_Score'' 40 =
      Inr (set_col df ''Risk_Score'' (map I64 ?w1))"
    using loc_add_I64 [OF rs0] by (simp add: set_scalar_def)
  have s2: "loc_add (set_col df ''Risk_Score'' (map I64 ?w1)) (eq_str it ''Fiber optic'') ''Risk_Score'' 20 =
      Inr (set_col df ''Risk_Score'' (map I64 ?w2))"
    by (subst loc_add_I64) (auto simp: get_col_set_col)
  have s3: "loc_add (set_col df ''Risk_Score'' (map I64 ?w2)) (eq_str ts ''No'') ''Risk_Score'' 20 =
      Inr (set_col df ''Risk_Score'' (map I64 ?w3))"
    by (subst loc_add_I64) (auto simp: get_col_set_col)
  have s4: "loc_add (set_col df ''Risk_Score'' (map I64 ?w3)) young ''Risk_Score'' 20 =
      Inr (set_col df ''Risk_Score'' (map I64 (add_where young 20 ?w3)))"
    by (subst loc_add_I64) (auto simp: get_col_set_col)
  have "get_col ?df0 ''Contract'' = Inr ct"
    using assms(1) by (simp add: set_scalar_def get_col_set_col)
  then have "calculate_risk_scores df = Inr (set_col df ''Risk_Score'' (map I64 (add_where young 20 ?w3)))"
    unfolding calculate_risk_scores_def Let_def
    using assms(2-4) young by (simp add: s1 s2 s3 s4 get_col_set_col)
  then show ?thesis by blast
qed

section \<open>The report\<close>

lemma foldl_f64_add_Fin: "foldl f64_add (Fin a) (map Fin xs) = Fin (a + sum_list xs)"
  by (induction xs arbitrary: a) (simp_all add: add.assoc)

lemma present_values_numbers:
  assumes "\<forall>c \<in> set col. c = NaN \<or> cell_number c \<noteq> None"
  shows "present_values col = Inr (map Fin (List.map_filter cell_number col))"
proof -
  let ?g = "\<lambda>c. case c of Str s \<Rightarrow> FNaN | I64 w \<Rightarrow> Fin (of_int (sint w)) | F64 f \<Rightarrow> f"
  have "to_float c = Inr (?g c)" if "c \<in> set col" for c
    using assms that by (cases c) auto
  then have floats: "map_r to_float col = Inr (map ?g col)"
    by (rule map_r_Inr_map)
  have step: "(if ?g c \<noteq> FNaN then [?g c] else []) =
      (case cell_number c of None \<Rightarrow> [] | Some x \<Rightarrow> [Fin x])"
    if "c = NaN \<or> cell_number c \<noteq> None" for c
  proof (cases c)
    case (Str s)
    with that show ?thesis by simp
  next
    case (I64 w)
    then show ?thesis by simp
  next
    case (F64 f)
    with that show ?thesis by (cases f) simp_all
  qed
  have "filter (\<lambda>f. f \<noteq> FNaN) (map ?g col) = map Fin (List.map_filter cell_number col)"
    using assms
  proof (induction col)
    case Nil
    then show ?case by (simp add: map_filter_simps)
  next
    case (Cons c col)
    then have "c = NaN \<or> cell_number c \<noteq> None" by simp
    from step [OF this] Cons show ?case
      by (simp add: map_filter_simps split: option.splits if_splits)
  qed
  with floats show ?thesis
    by (simp add: present_values_def del: of_int_sint)
qed

lemma mean_numbers:
  assumes "\<forall>c \<in> set col. c = NaN \<or> cell_number c \<noteq> None"
  shows "mean col = Inr (spec_mean (List.map_filter cell_number col))"
proof -
  have "f64_div (Fin (sum_list xs)) (Fin (of_nat (length xs))) = Fin (sum_list xs / of_nat (length xs))"
    if "xs \<noteq> []" for xs :: "rat list"
    using that by simp
  then show ?thesis
    by (simp add: mean_def present_values_numbers [OF assms] spec_mean_def foldl_f64_add_Fin)
qed

lemma numbers_in_get_col:
  "get_col df name = Inr c \<Longrightarrow> numbers_in df name = List.map_filter cell_number c"
  by (auto simp: numbers_in_def get_col_def split: option.splits)

lemma map_filter_I64: "List.map_filter cell_number (map I64 ws) = map (\<lambda>w. of_int (sint w)) ws"
  by (induction ws) (simp_all add: map_filter_simps del: of_int_sint)

lemma ge_int_I64: "ge_int (map I64 ws) k = Inr (map (\<lambda>w. k \<le> sint w) ws)"
  unfolding ge_int_def by (induction ws) simp_all

lemma map_dict_churn_numbers:
  "\<forall>c \<in> set (map_dict churn_codes churn). c = NaN \<or> cell_number c \<noteq> None"
  by (auto simp: map_dict_def churn_codes_def)

text \<open>
  Claim C8. On every engineered and scored table the report's aggregates are: the
  churn rate, 100 times the arithmetic mean of the numbers in Churn_Numeric; the
  average risk, the arithmetic mean of Risk_Score; and the high-risk count, the number
  of rows whose Risk_Score is at least 60.
\<close>

theorem report_aggregates_are_means:
  assumes "engineer_features df0 = Inr df1" and "calculate_risk_scores df1 = Inr df"
  shows "report_aggregates df =
     Inr \<lparr>churn_rate = f64_times (spec_mean (numbers_in df ''Churn_Numeric'')) 100,
          avg_risk = spec_mean (numbers_in df ''Risk_Score''),
          high_risk_base = length (filter (\<lambda>x. 60 \<le> x) (numbers_in df ''Risk_Score''))\<rparr>"
proof -
  from engineer_features_Inr [OF assms(1)] obtain churn sc cv lt where
    df1: "df1 = set_col (set_col (set_col (set_col df0
             ''Churn_Numeric'' (map_dict churn_codes churn)) ''Service_Count'' sc)
             ''Charge_Velocity'' cv) ''Is_Long_Term'' lt"
    by blast
  from calculate_risk_scores_Inr [OF assms(2)] obtain ws where
    df: "df = set_col df1 ''Risk_Score'' (map I64 ws)"
    by blast
  have cn: "get_col df ''Churn_Numeric'' = Inr (map_dict churn_codes churn)"
    unfolding df df1 by (simp add: get_col_set_col)
  have rs: "get_col df ''Risk_Score'' = Inr (map I64 ws)"
    unfolding df by (simp add: get_col_set_col)
  have churn_mean: "mean (map_dict churn_codes churn) =
      Inr (spec_mean (numbers_in df ''Churn_Numeric''))"
    using mean_numbers [OF map_dict_churn_numbers] by (simp add: numbers_in_get_col [OF cn])
  have "\<forall>c \<in> set (map I64 ws). c = NaN \<or> cell_number c \<noteq> None"
    by auto
  then have risk_mean: "mean (map I64 ws) = Inr (spec_mean (numbers_in df ''Risk_Score''))"
    using mean_numbers by (simp add: numbers_in_get_col [OF rs])
  have high: "length (filter (\<lambda>b. b) (map (\<lambda>w. 60 \<le> sint w) ws)) =
      length (filter (\<lambda>x. 60 \<le> x) (numbers_in df ''Risk_Score''))"
  proof -
    have "length (filter (\<lambda>x. 60 \<le> x) (map (\<lambda>w. rat_of_int (sint w)) ws)) =
        length (filter (\<lambda>w. 60 \<le> sint w) ws)"
      by (induction ws) (simp_all del: of_int_sint)
    moreover have "length (filter (\<lambda>b. b) (map (\<lambda>w. 60 \<le> sint w) ws)) =
        length (filter (\<lambda>w. 60 \<le> sint w) ws)"
      by (induction ws) simp_all
    ultimately show ?thesis
      by (simp only: numbers_in_get_col [OF rs] map_filter_I64)
  qed
  have "report_aggregates df =
     Inr \<lparr>churn_rate = f64_times (spec_mean (numbers_in df ''Churn_Numeric'')) 100,
          avg_risk = spec_mean (numbers_in df ''Risk_Score''),
          high_risk_base = length (filter (\<lambda>b. b) (map (\<lambda>w. 60 \<le> sint w) ws))\<rparr>"
    unfolding report_aggregates_def
    by (simp add: cn rs churn_mean risk_mean ge_int_I64)
  then show ?thesis
    by (simp only: high)
qed

lemma score_three_customers_engineered:
  "calculate_risk_scores three_customers_engineered = Inr three_customers_scored"
  by code_simp

theorem report_aggregates_are_means_witness:
  "engineer_features three_customers = Inr three_customers_engineered \<and>
   calculate_risk_scores three_customers_engineered = Inr three_customers_scored \<and>
   numbers_in three_customers_scored ''Churn_Numeric'' = [1, 0, 0] \<and>
   numbers_in three_customers_scored ''Risk_Score'' = [100, 0, 20] \<and>
   report_aggregates three_customers_scored =
     Inr \<lparr>churn_rate = Fin (100 / 3), avg_risk = Fin 40, high_risk_base = 1\<rparr>"
proof -
  have cn: "numbers_in three_customers_scored ''Churn_Numeric'' = [1, 0, 0]"
    and rs: "numbers_in three_customers_scored ''Risk_Score'' = [100, 0, 20]"
    by code_simp+
  have "report_aggregates three_customers_scored =
     Inr \<lparr>churn_rate = Fin (100 / 3), avg_risk = Fin 40, high_risk_base = 1\<rparr>"
    using report_aggregates_are_means [OF engineer_three_customers score_three_customers_engineered]
    by (simp add: cn rs spec_mean_def)
  then show ?thesis
    using cn rs by (simp add: engineer_three_customers score_three_customers_engineered)
qed

section \<open>The main program\<close>




text \<open>
  A complete run on the file of the three customers: the report with a churn rate of
  one in three, an average score of 40 and one high-risk customer, and the dashboard
  image written.
\<close>

lemma main_customers_file:
  "main parse_known draws_all customers_file =
     \<lparr>console = report_lines \<lparr>churn_rate = Fin (100 / 3), avg_risk = Fin 40, high_risk_base = 1\<rparr>,
      image_files = [''Churn_Dashboard_v2.png''], outcome = Exit_Normally\<rparr>"
  by code_simp

end
